theory Spec2Isabelle
  imports Main "HOL-Library.Word"
begin

section \<open>AG PlagCheck: the upload script \<^verbatim>\<open>app.py\<close>\<close>

text \<open>
  The repository is one Streamlit script. Its only function with logic is
  \<^verbatim>\<open>process\<close>; the rest of the file is the top-level script that Streamlit
  runs from the first line to the last on every interaction. Both are embedded here:
  \<^verbatim>\<open>process\<close> as a function of the namespace it resolves its one global name in,
  and the script as a function from one run's widget values and session state to the
  run's outcome.
\<close>

subsection \<open>Python values\<close>

text \<open>
  A Python \<^verbatim>\<open>str\<close> is a sequence of Unicode code points and \<^verbatim>\<open>len\<close> counts
  them, so a string is a list of code points. A \<^verbatim>\<open>bytes\<close> value is a list of
  octets. Literals of the source are written with \<open>str_lit\<close>.
\<close>

type_synonym pystr = "nat list"
type_synonym bytes = "8 word list"

definition str_lit :: "string \<Rightarrow> pystr" where
  "str_lit s = map of_char s"

text \<open>
  \<^verbatim>\<open>str.strip()\<close> without argument removes leading and trailing whitespace, where
  whitespace is what \<^verbatim>\<open>str.isspace\<close> accepts: the code points below.
\<close>

definition whitespace :: "nat list" where
  "whitespace =
     [9, 10, 11, 12, 13, 28, 29, 30, 31, 32, 133, 160, 5760,
      8192, 8193, 8194, 8195, 8196, 8197, 8198, 8199, 8200, 8201, 8202,
      8232, 8233, 8239, 8287, 12288]"

definition is_space :: "nat \<Rightarrow> bool" where
  "is_space c \<longleftrightarrow> c \<in> set whitespace"

definition lstrip :: "pystr \<Rightarrow> pystr" where
  "lstrip s = dropWhile is_space s"

definition rstrip :: "pystr \<Rightarrow> pystr" where
  "rstrip s = rev (dropWhile is_space (rev s))"

definition strip :: "pystr \<Rightarrow> pystr" where
  "strip s = rstrip (lstrip s)"

text \<open>
  An exception is a value. \<open>NameError n\<close> is Python's own error for a name that is
  bound neither in the module nor in the builtins; \<open>Raised c\<close> is an exception of
  class \<open>c\<close> raised by a collaborator (a library call, or the callee of \<^verbatim>\<open>process\<close>).
\<close>

datatype py_error = NameError string | Raised string

text \<open>The dictionaries \<^verbatim>\<open>process\<close> returns have literal keys and string values.\<close>

type_synonym pydict = "string \<rightharpoonup> pystr"

subsection \<open>Lazy models (lines 41 to 61)\<close>

text \<open>
  Each of the five loaders is wrapped in \<^verbatim>\<open>st.cache_resource\<close>: the first call
  constructs the model, later calls return the cached one. The part of the process
  state the loaders touch is the cache and, for the claims about what is invoked, the
  sequence of loader calls made so far.
\<close>

datatype model = Embedder | CrossEncoder | SpacyNlp | Gpt2Tokenizer | Gpt2Model

record world =
  cached :: "model set"
  loader_calls :: "model list"

definition cache_resource :: "model \<Rightarrow> world \<Rightarrow> model \<times> world" where
  "cache_resource m w =
     (m, w\<lparr>cached := insert m (cached w), loader_calls := loader_calls w @ [m]\<rparr>)"

definition load_embedder :: "world \<Rightarrow> model \<times> world" where
  "load_embedder = cache_resource Embedder"

definition load_cross_encoder :: "world \<Rightarrow> model \<times> world" where
  "load_cross_encoder = cache_resource CrossEncoder"

definition load_nlp :: "world \<Rightarrow> model \<times> world" where
  "load_nlp = cache_resource SpacyNlp"

definition load_tokenizer :: "world \<Rightarrow> model \<times> world" where
  "load_tokenizer = cache_resource Gpt2Tokenizer"

definition load_gpt_model :: "world \<Rightarrow> model \<times> world" where
  "load_gpt_model = cache_resource Gpt2Model"

subsection \<open>The names of the module\<close>

text \<open>
  \<^verbatim>\<open>process\<close> calls \<^verbatim>\<open>extract(file_bytes, fn)\<close>. Python resolves the name when the
  call runs: in the module's globals, then in the builtins, and raises
  \<^verbatim>\<open>NameError\<close> when neither binds it. \<open>module_names\<close> lists every name the
  file's top level can bind (imports, assignments, loop and \<^verbatim>\<open>with\<close> targets,
  function definitions, and the names every module has), \<open>builtin_names\<close> the
  names of the \<^verbatim>\<open>builtins\<close> module.
\<close>

definition module_names :: "string list" where
  "module_names =
     [''__name__'', ''__doc__'', ''__package__'', ''__loader__'', ''__spec__'',
      ''__file__'', ''__builtins__'', ''__annotations__'', ''__cached__'',
      ''st'', ''hashlib'', ''re'', ''io'', ''asyncio'', ''aiohttp'', ''requests'',
      ''dataclass'', ''fitz'', ''nltk'', ''word_tokenize'', ''sent_tokenize'',
      ''TfidfVectorizer'', ''cosine_similarity'', ''SentenceTransformer'', ''util'',
      ''CrossEncoder'', ''GPT2Tokenizer'', ''GPT2LMHeadModel'', ''torch'',
      ''SequenceMatcher'', ''FPDF'', ''spacy'', ''create_client'', ''Client'',
      ''scholarly'',
      ''supabase_url'', ''supabase_key'', ''supabase'',
      ''logout'',
      ''load_embedder'', ''load_cross_encoder'', ''load_nlp'', ''load_tokenizer'',
      ''load_gpt_model'',
      ''LANGUAGES'', ''lang'', ''txt'',
      ''show_logo'',
      ''email'', ''col1'', ''col2'',
      ''query_params'', ''user'', ''e'',
      ''tab1'', ''tab2'', ''tab3'',
      ''process'',
      ''files'', ''f'', ''res'']"

definition builtin_names :: "string list" where
  "builtin_names =
     [''ArithmeticError'', ''AssertionError'', ''AttributeError'', ''BaseException'',
      ''BaseExceptionGroup'', ''BlockingIOError'', ''BrokenPipeError'', ''BufferError'',
      ''BytesWarning'', ''ChildProcessError'', ''ConnectionAbortedError'',
      ''ConnectionError'', ''ConnectionRefusedError'', ''ConnectionResetError'',
      ''DeprecationWarning'', ''EOFError'', ''Ellipsis'', ''EncodingWarning'',
      ''EnvironmentError'', ''Exception'', ''ExceptionGroup'', ''False'',
      ''FileExistsError'', ''FileNotFoundError'', ''FloatingPointError'',
      ''FutureWarning'', ''GeneratorExit'', ''IOError'', ''ImportError'',
      ''ImportWarning'', ''IndentationError'', ''IndexError'', ''InterruptedError'',
      ''IsADirectoryError'', ''KeyError'', ''KeyboardInterrupt'', ''LookupError'',
      ''MemoryError'', ''ModuleNotFoundError'', ''NameError'', ''None'',
      ''NotADirectoryError'', ''NotImplemented'', ''NotImplementedError'', ''OSError'',
      ''OverflowError'', ''PendingDeprecationWarning'', ''PermissionError'',
      ''ProcessLookupError'', ''RecursionError'', ''ReferenceError'',
      ''ResourceWarning'', ''RuntimeError'', ''RuntimeWarning'', ''StopAsyncIteration'',
      ''StopIteration'', ''SyntaxError'', ''SyntaxWarning'', ''SystemError'',
      ''SystemExit'', ''TabError'', ''TimeoutError'', ''True'', ''TypeError'',
      ''UnboundLocalError'', ''UnicodeDecodeError'', ''UnicodeEncodeError'',
      ''UnicodeError'', ''UnicodeTranslateError'', ''UnicodeWarning'', ''UserWarning'',
      ''ValueError'', ''Warning'', ''ZeroDivisionError'', ''__build_class__'',
      ''__debug__'', ''__doc__'', ''__import__'', ''__loader__'', ''__name__'',
      ''__package__'', ''__spec__'', ''abs'', ''aiter'', ''all'', ''anext'', ''any'',
      ''ascii'', ''bin'', ''bool'', ''breakpoint'', ''bytearray'', ''bytes'',
      ''callable'', ''chr'', ''classmethod'', ''compile'', ''complex'', ''copyright'',
      ''credits'', ''delattr'', ''dict'', ''dir'', ''divmod'', ''enumerate'', ''eval'',
      ''exec'', ''exit'', ''filter'', ''float'', ''format'', ''frozenset'', ''getattr'',
      ''globals'', ''hasattr'', ''hash'', ''help'', ''hex'', ''id'', ''input'', ''int'',
      ''isinstance'', ''issubclass'', ''iter'', ''len'', ''license'', ''list'',
      ''locals'', ''map'', ''max'', ''memoryview'', ''min'', ''next'', ''object'',
      ''oct'', ''open'', ''ord'', ''pow'', ''print'', ''property'', ''quit'', ''range'',
      ''repr'', ''reversed'', ''round'', ''set'', ''setattr'', ''slice'', ''sorted'',
      ''staticmethod'', ''str'', ''sum'', ''super'', ''tuple'', ''type'', ''vars'',
      ''zip'']"

text \<open>
  A namespace gives, for each bound name, what calling the bound object with the two
  arguments of the call in \<^verbatim>\<open>process\<close> does: it raises, or it returns the text,
  and it may use the models on the way. \<open>shipped G\<close> says that \<open>G\<close> binds no name
  beyond those of the file and of the builtins, as every namespace the script runs
  \<^verbatim>\<open>process\<close> in does.
\<close>

type_synonym callable = "bytes \<Rightarrow> pystr \<Rightarrow> world \<Rightarrow> (py_error + pystr) \<times> world"
type_synonym namespace = "string \<rightharpoonup> callable"

definition shipped :: "namespace \<Rightarrow> bool" where
  "shipped G \<longleftrightarrow> dom G \<subseteq> set module_names \<union> set builtin_names"

subsection \<open>\<^verbatim>\<open>process\<close> (lines 177 to 182)\<close>

definition process ::
  "namespace \<Rightarrow> bytes \<Rightarrow> pystr \<Rightarrow> bool \<Rightarrow> world \<Rightarrow> (py_error + pydict) \<times> world" where
  "process G file_bytes fn enable_global w =
     (case G ''extract'' of
        None \<Rightarrow> (Inl (NameError ''extract''), w)
      | Some extract \<Rightarrow>
          (case extract file_bytes fn w of
             (Inl e, w') \<Rightarrow> (Inl e, w')
           | (Inr text, w') \<Rightarrow>
               if length (strip text) < 200
               then (Inr [''err'' \<mapsto> str_lit ''File too short'', ''text'' \<mapsto> text], w')
               else (Inr [''text'' \<mapsto> text, ''fn'' \<mapsto> fn], w')))"

text \<open>
  A sample extractor, for concrete runs: it reads the bytes as Latin-1 text and uses
  no model. It is one possible binding of the name, not part of the file.
\<close>

definition latin1 :: callable where
  "latin1 file_bytes fn w = (Inr (map unat file_bytes), w)"

subsection \<open>One run of the script\<close>

text \<open>
  Streamlit runs the file top to bottom on every interaction. What survives from one
  run to the next is \<^verbatim>\<open>st.session_state\<close> (the keys \<^verbatim>\<open>user\<close> and \<^verbatim>\<open>lang\<close>,
  absent in a fresh session) and the resource cache. The value under \<^verbatim>\<open>user\<close> is
  \<^verbatim>\<open>None\<close>, a dictionary, or the user object the Supabase client returned.
\<close>

datatype user_val = PyNone | PyDict "(string \<times> pystr) list" | SupabaseUser string

fun truthy :: "user_val \<Rightarrow> bool" where
  "truthy PyNone = False"
| "truthy (PyDict d) = (d \<noteq> [])"
| "truthy (SupabaseUser u) = True"

definition guest_user :: user_val where
  "guest_user = PyDict [(''id'', str_lit ''guest''), (''email'', str_lit ''guest@local'')]"

record session =
  user :: "user_val option"
  lang :: "pystr option"

text \<open>
  The inputs of one run: the values the widgets return and the answers of the
  collaborators. Output that is only drawn (titles, messages, the text area) is not
  part of the model; a call that can raise, or that decides what runs next, is.
  \<^item> \<open>startup\<close>: an exception of lines 1 to 29 (imports, downloads, the secrets, the
    client), if any;
  \<^item> \<open>object_get\<close>: an exception of \<^verbatim>\<open>.get('email', 'Guest')\<close> on a Supabase user
    object, if any (on a dictionary the call returns);
  \<^item> \<open>sign_out\<close>: an exception of \<^verbatim>\<open>supabase.auth.sign_out()\<close>, if any;
  \<^item> \<open>query_params\<close>: the keys of \<^verbatim>\<open>st.query_params\<close>;
  \<^item> \<open>get_user\<close>: \<^verbatim>\<open>supabase.auth.get_user()\<close> followed by \<^verbatim>\<open>.user\<close>: an
    exception, no user, or a user;
  \<^item> \<open>clear_params\<close>: an exception of \<^verbatim>\<open>st.query_params.clear()\<close>, if any;
  \<^item> \<open>selected\<close>: the files the visitor has put into the uploader.
\<close>

record upload =
  name :: pystr
  read :: bytes

record inputs =
  startup :: "py_error option"
  object_get :: "py_error option"
  logout_button :: bool
  sign_out :: "py_error option"
  guest_button :: bool
  query_params :: "pystr list"
  get_user :: "py_error + string option"
  clear_params :: "py_error option"
  selected :: "upload list"

datatype outcome = Finished | Stopped | Rerun | Crashed py_error

text \<open>
  Every call of \<^verbatim>\<open>process\<close> a run makes is recorded, with what the session holds
  under \<^verbatim>\<open>user\<close> at that moment.
\<close>

record check =
  as_user :: "user_val option"
  on_file :: upload
  enable_global_arg :: bool
  result :: "py_error + pydict"

record run =
  session_state :: session
  resources :: world
  checks :: "check list"

text \<open>Lines 35 to 38.\<close>

definition logout :: "inputs \<Rightarrow> run \<Rightarrow> run \<times> outcome" where
  "logout i r =
     (case sign_out i of
        Some e \<Rightarrow> (r, Crashed e)
      | None \<Rightarrow> (r\<lparr>session_state := (session_state r)\<lparr>user := Some PyNone\<rparr>\<rparr>, Rerun))"

text \<open>
  Lines 117 to 148. \<open>None\<close> as outcome: the run goes on after the sidebar. The magic
  link branch (lines 128 to 137) draws messages and catches the exception of its one
  call, so it changes neither the session nor what runs next.
\<close>

definition sidebar :: "inputs \<Rightarrow> run \<Rightarrow> run \<times> outcome option" where
  "sidebar i r =
     (case user (session_state r) of
        None \<Rightarrow> (r, Some (Crashed (Raised ''AttributeError'')))
      | Some u \<Rightarrow>
          if truthy u then
            (case (case u of SupabaseUser _ \<Rightarrow> object_get i | _ \<Rightarrow> None) of
               Some e \<Rightarrow> (r, Some (Crashed e))
             | None \<Rightarrow>
                 if logout_button i
                 then (case logout i r of (r', out) \<Rightarrow> (r', Some out))
                 else (r, None))
          else if guest_button i
          then (r\<lparr>session_state := (session_state r)\<lparr>user := Some guest_user\<rparr>\<rparr>, Some Rerun)
          else (r, Some Stopped))"

text \<open>
  Lines 151 to 170. The \<^verbatim>\<open>except Exception\<close> catches what \<^verbatim>\<open>get_user\<close> raises,
  and what the clearing of the parameters raises after the user has been stored; the
  run then goes on to the tabs. The rerun is not an \<^verbatim>\<open>Exception\<close> and ends the run.
\<close>

definition callback :: "inputs \<Rightarrow> run \<Rightarrow> run \<times> outcome option" where
  "callback i r =
     (if str_lit ''access_token'' \<in> set (query_params i) \<or> str_lit ''type'' \<in> set (query_params i)
      then (case get_user i of
              Inl e \<Rightarrow> (r, None)
            | Inr None \<Rightarrow> (r, None)
            | Inr (Some u) \<Rightarrow>
                (r\<lparr>session_state := (session_state r)\<lparr>user := Some (SupabaseUser u)\<rparr>\<rparr>,
                 case clear_params i of Some e \<Rightarrow> None | None \<Rightarrow> Some Rerun))
      else (r, None))"

text \<open>
  Line 186: \<^verbatim>\<open>st.file_uploader("Upload files", type=["pdf", "docx", "txt"],
  accept_multiple_files=True)\<close>. The widget is Streamlit's, not the repository's;
  what it does with the value the browser sends is modelled here as the library does it.
  It puts a dot in front of each type (the three are written without one and in lower
  case, and none of them has the second spelling the library adds for \<^verbatim>\<open>jpg\<close> and
  the like). Then it checks every file of the selection: a name with a null byte, or a
  name whose lower-case form ends in none of the dotted types, raises
  \<^verbatim>\<open>StreamlitAPIException\<close> (\<^verbatim>\<open>Invalid file extension\<close>) and the widget returns
  nothing; otherwise it returns the whole selection.

  \<^verbatim>\<open>str.lower()\<close> maps the capitals \<^verbatim>\<open>A\<close> to \<^verbatim>\<open>Z\<close> to the small letters. It
  changes other code points too, but none of them into a dot or into a letter of the
  three types, so for the test of the ending only the capitals matter.
\<close>

definition upload_types :: "pystr list" where
  "upload_types = [str_lit ''pdf'', str_lit ''docx'', str_lit ''txt'']"

definition normalize_upload_file_type :: "pystr list \<Rightarrow> pystr list" where
  "normalize_upload_file_type types = map (\<lambda>t. 46 # t) types"

definition lower :: "pystr \<Rightarrow> pystr" where
  "lower n = map (\<lambda>c. if 65 \<le> c \<and> c \<le> 90 then c + 32 else c) n"

definition ends_with :: "pystr \<Rightarrow> pystr \<Rightarrow> bool" where
  "ends_with n e \<longleftrightarrow> length e \<le> length n \<and> drop (length n - length e) n = e"

definition allowed_name :: "pystr list \<Rightarrow> pystr \<Rightarrow> bool" where
  "allowed_name allowed_types n \<longleftrightarrow>
     0 \<notin> set n \<and> list_ex (\<lambda>t. ends_with (lower n) t) allowed_types"

definition file_uploader :: "pystr list \<Rightarrow> upload list \<Rightarrow> py_error + upload list" where
  "file_uploader types fs =
     (if list_all (\<lambda>f. allowed_name (normalize_upload_file_type types) (name f)) fs
      then Inr fs
      else Inl (Raised ''StreamlitAPIException''))"

text \<open>
  Lines 188 to 195: the loop over the files. An exception of \<^verbatim>\<open>process\<close> is not
  caught, so it ends the run at that file.
\<close>

definition record_check :: "upload \<Rightarrow> py_error + pydict \<Rightarrow> world \<Rightarrow> run \<Rightarrow> run" where
  "record_check f res w' r =
     r\<lparr>resources := w',
       checks := checks r @
         [\<lparr>as_user = user (session_state r), on_file = f, enable_global_arg = False,
           result = res\<rparr>]\<rparr>"

fun check_files :: "namespace \<Rightarrow> upload list \<Rightarrow> run \<Rightarrow> run \<times> outcome" where
  "check_files G [] r = (r, Finished)"
| "check_files G (f # fs) r =
     (case process G (read f) (name f) False (resources r) of
        (Inl e, w') \<Rightarrow> (record_check f (Inl e) w' r, Crashed e)
      | (Inr res, w') \<Rightarrow> check_files G fs (record_check f (Inr res) w' r))"

text \<open>Lines 184 to 195: an exception of the widget ends the run before the loop.\<close>

definition tab1 :: "namespace \<Rightarrow> inputs \<Rightarrow> run \<Rightarrow> run \<times> outcome" where
  "tab1 G i r =
     (case file_uploader upload_types (selected i) of
        Inl e \<Rightarrow> (r, Crashed e)
      | Inr files \<Rightarrow> check_files G files r)"

text \<open>
  Lines 32 and 33 set the key \<^verbatim>\<open>user\<close> when it is absent, lines 89 and 90 the key
  \<^verbatim>\<open>lang\<close>.
\<close>

definition init_session :: "session \<Rightarrow> session" where
  "init_session s =
     (let s1 = (case user s of None \<Rightarrow> s\<lparr>user := Some PyNone\<rparr> | Some _ \<Rightarrow> s)
      in case lang s1 of None \<Rightarrow> s1\<lparr>lang := Some (str_lit ''en'')\<rparr> | Some _ \<Rightarrow> s1)"

text \<open>
  The whole file. Line 93 looks \<^verbatim>\<open>lang\<close> up in \<^verbatim>\<open>LANGUAGES\<close>, whose only key is
  \<^verbatim>\<open>en\<close>; then come the sidebar, the callback and the three tabs, of which the
  second and the third only draw.
\<close>

definition script :: "namespace \<Rightarrow> inputs \<Rightarrow> session \<Rightarrow> world \<Rightarrow> run \<times> outcome" where
  "script G i s w =
     (case startup i of
        Some e \<Rightarrow> (\<lparr>session_state = s, resources = w, checks = []\<rparr>, Crashed e)
      | None \<Rightarrow>
          let r1 = \<lparr>session_state = init_session s, resources = w, checks = []\<rparr>
          in if lang (init_session s) \<noteq> Some (str_lit ''en'')
             then (r1, Crashed (Raised ''KeyError''))
             else
               (case sidebar i r1 of
                  (r2, Some out) \<Rightarrow> (r2, out)
                | (r2, None) \<Rightarrow>
                    (case callback i r2 of
                       (r3, Some out) \<Rightarrow> (r3, out)
                     | (r3, None) \<Rightarrow> tab1 G i r3)))"

text \<open>
  The sessions the script can leave behind: a fresh session has neither key, and every
  run, whatever its inputs, hands its session to the next one.
\<close>

inductive reachable :: "session \<Rightarrow> bool" where
  fresh: "reachable \<lparr>user = None, lang = None\<rparr>"
| run: "reachable s \<Longrightarrow> reachable (session_state (fst (script G i s w)))"

subsection \<open>Sample inputs\<close>

text \<open>
  Concrete values for the runs evaluated below. \<open>len\<close> and \<open>process\<close> are two of
  the names the module does bind; neither takes two arguments, so calling either the
  way \<^verbatim>\<open>process\<close> calls \<^verbatim>\<open>extract\<close> raises \<^verbatim>\<open>TypeError\<close>.
\<close>

definition wrong_arity :: callable where
  "wrong_arity file_bytes fn w = (Inl (Raised ''TypeError''), w)"

definition sample_namespace :: namespace where
  "sample_namespace = [''len'' \<mapsto> wrong_arity, ''process'' \<mapsto> wrong_arity]"

definition visit :: "upload list \<Rightarrow> inputs" where
  "visit fs =
     \<lparr>startup = None, object_get = None, logout_button = False, sign_out = None,
      guest_button = False, query_params = [], get_user = Inr None, clear_params = None,
      selected = fs\<rparr>"

definition guest_session :: session where
  "guest_session = \<lparr>user = Some guest_user, lang = Some (str_lit ''en'')\<rparr>"

definition no_models :: world where
  "no_models = \<lparr>cached = {}, loader_calls = []\<rparr>"

definition short_txt :: upload where
  "short_txt = \<lparr>name = str_lit ''a.txt'', read = [0x68, 0x69]\<rparr>"

definition upper_txt :: upload where
  "upper_txt = \<lparr>name = str_lit ''A.TXT'', read = [0x68, 0x69]\<rparr>"

definition long_txt :: upload where
  "long_txt = \<lparr>name = str_lit ''b.txt'', read = replicate 200 0x61\<rparr>"

definition essay_exe :: upload where
  "essay_exe = \<lparr>name = str_lit ''essay.exe'', read = replicate 200 0x61\<rparr>"

definition fresh_session :: session where
  "fresh_session = \<lparr>user = None, lang = None\<rparr>"

definition click_guest :: inputs where
  "click_guest = (visit [])\<lparr>guest_button := True\<rparr>"

section \<open>Properties\<close>

subsection \<open>Stripping\<close>

lemma strip_no_space:
  assumes "\<forall>c \<in> set s. \<not> is_space c"
  shows "strip s = s"
proof (cases s)
  case Nil
  then show ?thesis by (simp add: strip_def lstrip_def rstrip_def)
next
  case (Cons a as)
  with assms have l: "dropWhile is_space s = s" by simp
  show ?thesis
  proof (cases "rev s")
    case Nil
    with Cons show ?thesis by simp
  next
    case (Cons b bs)
    then have "b \<in> set s" by (metis list.set_intros(1) set_rev)
    with assms have "\<not> is_space b" by blast
    with Cons have "dropWhile is_space (rev s) = rev s" by simp
    with l show ?thesis by (simp add: strip_def lstrip_def rstrip_def)
  qed
qed

lemma length_strip_le: "length (strip s) \<le> length s"
proof -
  have "length (rstrip t) \<le> length t" for t
    unfolding rstrip_def using length_dropWhile_le [of is_space "rev t"] by simp
  moreover have "length (lstrip s) \<le> length s"
    unfolding lstrip_def by (rule length_dropWhile_le)
  ultimately show ?thesis unfolding strip_def using le_trans by blast
qed

lemma strip_letters: "strip (replicate n 97) = replicate n 97"
  by (rule strip_no_space) (simp add: is_space_def whitespace_def)

subsection \<open>Resolving \<^verbatim>\<open>extract\<close>\<close>

lemma extract_not_a_name: "''extract'' \<notin> set module_names \<union> set builtin_names"
  by (simp add: module_names_def builtin_names_def)

lemma shipped_extract_unbound:
  assumes "shipped G"
  shows "G ''extract'' = None"
proof (rule ccontr)
  assume "G ''extract'' \<noteq> None"
  then have "''extract'' \<in> dom G" by (simp add: domIff)
  with assms have "''extract'' \<in> set module_names \<union> set builtin_names"
    unfolding shipped_def by (rule subsetD)
  with extract_not_a_name show False by (rule notE)
qed

lemma process_unbound:
  "G ''extract'' = None \<Longrightarrow>
     process G file_bytes fn enable_global w = (Inl (NameError ''extract''), w)"
  by (simp add: process_def)

text \<open>
  What lines 180 to 182 do once the name is bound: the three ways the call of
  \<^verbatim>\<open>extract\<close> can end.
\<close>

lemma process_bound_raises:
  assumes "G ''extract'' = Some ex" and "ex file_bytes fn w = (Inl e, w')"
  shows "process G file_bytes fn enable_global w = (Inl e, w')"
  using assms by (simp add: process_def)

lemma process_bound_short:
  assumes "G ''extract'' = Some ex" and "ex file_bytes fn w = (Inr text, w')"
    and "length (strip text) < 200"
  shows "process G file_bytes fn enable_global w =
    (Inr [''err'' \<mapsto> str_lit ''File too short'', ''text'' \<mapsto> text], w')"
  using assms by (simp add: process_def)

lemma process_bound_long:
  assumes "G ''extract'' = Some ex" and "ex file_bytes fn w = (Inr text, w')"
    and "\<not> length (strip text) < 200"
  shows "process G file_bytes fn enable_global w = (Inr [''text'' \<mapsto> text, ''fn'' \<mapsto> fn], w')"
  using assms by (simp add: process_def)

lemma process_state_bound:
  assumes "G ''extract'' = Some ex"
  shows "snd (process G file_bytes fn enable_global w) = snd (ex file_bytes fn w)"
  using assms by (simp add: process_def split: prod.splits sum.splits)

lemma loaders_extend_calls:
  "loader_calls (snd (load_embedder w)) = loader_calls w @ [Embedder]"
  "loader_calls (snd (load_cross_encoder w)) = loader_calls w @ [CrossEncoder]"
  "loader_calls (snd (load_nlp w)) = loader_calls w @ [SpacyNlp]"
  "loader_calls (snd (load_tokenizer w)) = loader_calls w @ [Gpt2Tokenizer]"
  "loader_calls (snd (load_gpt_model w)) = loader_calls w @ [Gpt2Model]"
  by (simp_all add: load_embedder_def load_cross_encoder_def load_nlp_def load_tokenizer_def
        load_gpt_model_def cache_resource_def)

subsection \<open>The loop over the uploaded files\<close>

lemma check_files_raise:
  "process G (read f) (name f) False (resources r) = (Inl e, w') \<Longrightarrow>
     check_files G (f # fs) r = (record_check f (Inl e) w' r, Crashed e)"
  by simp

lemma check_files_return:
  "process G (read f) (name f) False (resources r) = (Inr d, w') \<Longrightarrow>
     check_files G (f # fs) r = check_files G fs (record_check f (Inr d) w' r)"
  by simp

text \<open>What every pass through the loop body keeps, the loop keeps.\<close>

lemma check_files_invariant:
  assumes "P r"
    and "\<And>f res w' r. P r \<Longrightarrow> f \<in> set fs \<Longrightarrow>
           process G (read f) (name f) False (resources r) = (res, w') \<Longrightarrow>
           P (record_check f res w' r)"
  shows "P (fst (check_files G fs r))"
  using assms
proof (induction fs arbitrary: r)
  case Nil
  then show ?case by simp
next
  case (Cons f fs)
  obtain res w' where p: "process G (read f) (name f) False (resources r) = (res, w')"
    by (cases "process G (read f) (name f) False (resources r)")
  have step: "P (record_check f res w' r)"
    using Cons.prems(2) [OF Cons.prems(1) _ p] by simp
  show ?case
  proof (cases res)
    case (Inl e)
    with p step show ?thesis by (simp only: check_files_raise fst_conv)
  next
    case (Inr d)
    have "P (fst (check_files G fs (record_check f res w' r)))"
    proof (rule Cons.IH [OF step])
      fix g res' w'' r'
      assume "P r'" "g \<in> set fs" "process G (read g) (name g) False (resources r') = (res', w'')"
      then show "P (record_check g res' w'' r')"
        using Cons.prems(2) by simp
    qed
    with p Inr show ?thesis by (simp only: check_files_return)
  qed
qed

lemma check_files_session:
  "session_state (fst (check_files G fs r)) = session_state r"
  by (rule check_files_invariant [where P = "\<lambda>r'. session_state r' = session_state r"])
     (simp_all add: record_check_def)

lemma check_files_checks:
  assumes "\<forall>c \<in> set (checks r). Q c"
    and "\<And>f res. f \<in> set fs \<Longrightarrow>
           Q \<lparr>as_user = user (session_state r), on_file = f, enable_global_arg = False,
              result = res\<rparr>"
  shows "\<forall>c \<in> set (checks (fst (check_files G fs r))). Q c"
proof -
  have "session_state (fst (check_files G fs r)) = session_state r \<and>
        (\<forall>c \<in> set (checks (fst (check_files G fs r))). Q c)"
    by (rule check_files_invariant
          [where P = "\<lambda>r'. session_state r' = session_state r \<and> (\<forall>c \<in> set (checks r'). Q c)"])
       (use assms in \<open>simp_all add: record_check_def\<close>)
  then show ?thesis by simp
qed

lemma check_files_unbound:
  assumes "G ''extract'' = None"
  shows "resources (fst (check_files G fs r)) = resources r"
  by (rule check_files_invariant [where P = "\<lambda>r'. resources r' = resources r"])
     (use assms in \<open>auto simp: record_check_def process_unbound\<close>)

subsection \<open>The stages of a run\<close>

lemma sidebar_continue:
  assumes "sidebar i r = (r', None)"
  shows "r' = r \<and> (\<exists>u. user (session_state r) = Some u \<and> truthy u)"
  using assms
  by (cases "user (session_state r)")
     (auto simp: sidebar_def logout_def split: option.splits if_splits user_val.splits)

lemma sidebar_halt:
  assumes "sidebar i r = (r', Some out)"
  shows "checks r' = checks r \<and> resources r' = resources r \<and> out \<noteq> Finished"
  using assms
  by (cases "user (session_state r)")
     (auto simp: sidebar_def logout_def split: option.splits if_splits user_val.splits)

lemma sidebar_halt_user:
  assumes "sidebar i r = (r', Some out)"
  shows "user (session_state r') = user (session_state r) \<or>
         user (session_state r') = Some PyNone \<or>
         user (session_state r') = Some guest_user"
  using assms
  by (cases "user (session_state r)")
     (auto simp: sidebar_def logout_def split: option.splits if_splits user_val.splits)

lemma sidebar_without_user:
  assumes "user (session_state r) = Some u" and "\<not> truthy u"
  shows "snd (sidebar i r) = Some (if guest_button i then Rerun else Stopped)"
  using assms by (simp add: sidebar_def)

lemma callback_run:
  assumes "callback i r = (r', out)"
  shows "checks r' = checks r \<and> resources r' = resources r \<and>
         (out = None \<or> out = Some Rerun) \<and>
         (user (session_state r') = user (session_state r) \<or>
          (\<exists>x. user (session_state r') = Some (SupabaseUser x)))"
  using assms by (auto simp: callback_def split: if_splits sum.splits option.splits)

lemma init_session_user:
  "user (init_session s) = Some (case user s of None \<Rightarrow> PyNone | Some u \<Rightarrow> u)"
  by (simp add: init_session_def Let_def split: option.splits)

lemma init_session_lang:
  "lang s = None \<or> lang s = Some (str_lit ''en'') \<Longrightarrow>
     lang (init_session s) = Some (str_lit ''en'')"
  by (auto simp: init_session_def Let_def split: option.splits)

text \<open>
  A run either ends before the loop, with no call made, the models untouched and an
  outcome other than the normal end, or it is the loop over the whole selection, which
  the widget has let through, begun by a session whose user was truthy when the run
  started.
\<close>

lemma script_run:
  obtains (halted) "checks (fst (script G i s w)) = []"
      and "resources (fst (script G i s w)) = w" and "snd (script G i s w) \<noteq> Finished"
  | (loop) r u v where "script G i s w = check_files G (selected i) r"
      and "file_uploader upload_types (selected i) = Inr (selected i)"
      and "checks r = []" and "resources r = w"
      and "user s = Some v" and "truthy v"
      and "user (session_state r) = Some u" and "truthy u"
      and "u = v \<or> (\<exists>x. u = SupabaseUser x)"
proof (cases "startup i")
  case (Some e)
  then show ?thesis by (intro halted) (simp_all add: script_def)
next
  case None
  define r1 where "r1 = \<lparr>session_state = init_session s, resources = w, checks = []\<rparr>"
  show ?thesis
  proof (cases "lang (init_session s) = Some (str_lit ''en'')")
    case False
    with None show ?thesis by (intro halted) (simp_all add: script_def)
  next
    case True
    obtain r2 o2 where sb: "sidebar i r1 = (r2, o2)" by (cases "sidebar i r1")
    show ?thesis
    proof (cases o2)
      case (Some out)
      with sb have "script G i s w = (r2, out)"
        using None True by (simp add: script_def r1_def)
      moreover from sb Some have "checks r2 = [] \<and> resources r2 = w \<and> out \<noteq> Finished"
        using sidebar_halt [of i r1 r2 out] by (simp add: r1_def)
      ultimately show ?thesis by (intro halted) simp_all
    next
      case o2: None
      with sb have r2: "r2 = r1" and u: "\<exists>u. user (init_session s) = Some u \<and> truthy u"
        using sidebar_continue [of i r1 r2] by (simp_all add: r1_def)
      from u obtain v where v1: "user (init_session s) = Some v" and tv: "truthy v" by blast
      from v1 tv have us: "user s = Some v"
        by (cases "user s") (simp_all add: init_session_user)
      obtain r3 o3 where cb: "callback i r1 = (r3, o3)" by (cases "callback i r1")
      from callback_run [OF cb]
      have r3: "checks r3 = []" "resources r3 = w" "o3 = None \<or> o3 = Some Rerun"
        "user (session_state r3) = Some v \<or> (\<exists>x. user (session_state r3) = Some (SupabaseUser x))"
        by (simp_all add: r1_def v1)
      show ?thesis
      proof (cases o3)
        case (Some out)
        with cb sb o2 r2 have "script G i s w = (r3, out)"
          using None True by (simp add: script_def r1_def)
        moreover from Some r3(3) have "out = Rerun" by simp
        ultimately show ?thesis using r3(1,2) by (intro halted) simp_all
      next
        case o3: None
        from cb sb o2 o3 r2 have run: "script G i s w = tab1 G i r3"
          using None True by (simp add: script_def r1_def)
        show ?thesis
        proof (cases "file_uploader upload_types (selected i)")
          case (Inl e)
          with run have "script G i s w = (r3, Crashed e)" by (simp add: tab1_def)
          then show ?thesis using r3(1,2) by (intro halted) simp_all
        next
          case (Inr files)
          then have files: "files = selected i"
            by (simp add: file_uploader_def split: if_splits)
          with Inr run have loop_run: "script G i s w = check_files G (selected i) r3"
            by (simp add: tab1_def)
          from r3(4) obtain u where u3: "user (session_state r3) = Some u"
            and uv: "u = v \<or> (\<exists>x. u = SupabaseUser x)" by auto
          from uv tv have "truthy u" by auto
          with loop_run Inr files r3(1,2) us tv u3 uv show ?thesis by (intro loop) simp_all
        qed
      qed
    qed
  qed
qed

lemma script_resources_unbound:
  assumes "G ''extract'' = None"
  shows "resources (fst (script G i s w)) = w"
proof (cases rule: script_run [of G i s w])
  case halted
  then show ?thesis by simp
next
  case (loop r u v)
  then show ?thesis using assms by (simp add: check_files_unbound)
qed

lemma uploader_lets_through:
  assumes "file_uploader types fs = Inr fs" and "f \<in> set fs"
  shows "allowed_name (normalize_upload_file_type types) (name f)"
  using assms by (simp add: file_uploader_def list_all_iff split: if_splits)


lemma uploader_accepts:
  assumes "\<forall>f \<in> set fs. allowed_name (normalize_upload_file_type types) (name f)"
  shows "file_uploader types fs = Inr fs"
  using assms by (simp add: file_uploader_def list_all_iff)

lemma script_checks:
  assumes "\<And>f res u. f \<in> set (selected i) \<Longrightarrow>
      allowed_name (normalize_upload_file_type upload_types) (name f) \<Longrightarrow>
      Q \<lparr>as_user = u, on_file = f, enable_global_arg = False, result = res\<rparr>"
  shows "\<forall>c \<in> set (checks (fst (script G i s w))). Q c"
proof (cases rule: script_run [of G i s w])
  case halted
  then show ?thesis by simp
next
  case (loop r u v)
  show ?thesis unfolding loop(1)
  proof (rule check_files_checks)
    show "\<forall>c \<in> set (checks r). Q c" by (simp add: loop)
  next
    fix f res assume f: "f \<in> set (selected i)"
    from uploader_lets_through [OF loop(2) f]
    show "Q \<lparr>as_user = user (session_state r), on_file = f, enable_global_arg = False,
              result = res\<rparr>"
      using f by (rule assms [rotated])
  qed
qed

lemma script_checks_user:
  assumes "c \<in> set (checks (fst (script G i s w)))"
  shows "\<exists>u v. as_user c = Some u \<and> truthy u \<and> user s = Some v \<and> truthy v \<and>
           (u = v \<or> (\<exists>x. u = SupabaseUser x))"
proof (cases rule: script_run [of G i s w])
  case halted
  with assms show ?thesis by simp
next
  case (loop r u v)
  have "\<forall>c \<in> set (checks (fst (script G i s w))). as_user c = Some u"
    unfolding loop(1) by (rule check_files_checks) (simp_all add: loop)
  with assms loop show ?thesis by blast
qed

lemma script_no_user_no_checks:
  assumes "user s = None \<or> user s = Some PyNone"
  shows "checks (fst (script G i s w)) = [] \<and> snd (script G i s w) \<noteq> Finished"
proof (cases rule: script_run [of G i s w])
  case halted
  then show ?thesis by simp
next
  case (loop r u v)
  with assms show ?thesis by auto
qed


lemma script_without_user:
  assumes "user s = None \<or> user s = Some PyNone" and "startup i = None"
    and "lang s = None \<or> lang s = Some (str_lit ''en'')"
  shows "snd (script G i s w) = (if guest_button i then Rerun else Stopped)"
proof -
  define r1 where "r1 = \<lparr>session_state = init_session s, resources = w, checks = []\<rparr>"
  from assms(1) have "user (session_state r1) = Some PyNone"
    by (auto simp: r1_def init_session_user)
  then have "snd (sidebar i r1) = Some (if guest_button i then Rerun else Stopped)"
    by (simp add: sidebar_without_user)
  then obtain r2 where "sidebar i r1 = (r2, Some (if guest_button i then Rerun else Stopped))"
    by (cases "sidebar i r1") simp
  with assms(2) init_session_lang [OF assms(3)] show ?thesis
    by (simp add: script_def r1_def)
qed

text \<open>The only values a run stores under \<^verbatim>\<open>user\<close>.\<close>

lemma script_user_after:
  "user (session_state (fst (script G i s w))) = user s \<or>
   user (session_state (fst (script G i s w))) = Some PyNone \<or>
   user (session_state (fst (script G i s w))) = Some guest_user \<or>
   (\<exists>u. user (session_state (fst (script G i s w))) = Some (SupabaseUser u))"
proof (cases "startup i")
  case (Some e)
  then show ?thesis by (simp add: script_def)
next
  case None
  define r1 where "r1 = \<lparr>session_state = init_session s, resources = w, checks = []\<rparr>"
  have u1: "user (session_state r1) = user s \<or> user (session_state r1) = Some PyNone"
    by (cases "user s") (simp_all add: r1_def init_session_user)
  show ?thesis
  proof (cases "lang (init_session s) = Some (str_lit ''en'')")
    case False
    with None u1 show ?thesis by (auto simp: script_def r1_def)
  next
    case True
    obtain r2 o2 where sb: "sidebar i r1 = (r2, o2)" by (cases "sidebar i r1")
    show ?thesis
    proof (cases o2)
      case (Some out)
      with sb have "script G i s w = (r2, out)"
        using None True by (simp add: script_def r1_def)
      moreover from sb Some have "user (session_state r2) = user (session_state r1) \<or>
         user (session_state r2) = Some PyNone \<or> user (session_state r2) = Some guest_user"
        using sidebar_halt_user [of i r1 r2 out] by simp
      ultimately show ?thesis using u1 by auto
    next
      case o2: None
      with sb have r2: "r2 = r1" using sidebar_continue [of i r1 r2] by simp
      obtain r3 o3 where cb: "callback i r1 = (r3, o3)" by (cases "callback i r1")
      from callback_run [OF cb]
      have u3: "user (session_state r3) = user (session_state r1) \<or>
          (\<exists>x. user (session_state r3) = Some (SupabaseUser x))" by simp
      show ?thesis
      proof (cases o3)
        case (Some out)
        with cb sb o2 r2 have "script G i s w = (r3, out)"
          using None True by (simp add: script_def r1_def)
        with u3 u1 show ?thesis by auto
      next
        case o3: None
        from cb sb o2 o3 r2 have "script G i s w = tab1 G i r3"
          using None True by (simp add: script_def r1_def)
        moreover have "session_state (fst (tab1 G i r3)) = session_state r3"
          by (simp add: tab1_def check_files_session split: sum.splits)
        ultimately show ?thesis using u3 u1 by auto
      qed
    qed
  qed
qed

lemma reachable_user:
  assumes "reachable s"
  shows "user s = None \<or> user s = Some PyNone \<or> user s = Some guest_user \<or>
         (\<exists>u. user s = Some (SupabaseUser u))"
  using assms
proof (induction rule: reachable.induct)
  case fresh
  show ?case by simp
next
  case (run s G i w)
  with script_user_after [of G i s w] show ?case by metis
qed

subsection \<open>Sample runs\<close>

lemma sample_namespace_shipped: "shipped sample_namespace"
  by (simp add: shipped_def sample_namespace_def module_names_def builtin_names_def)

lemma sample_namespace_unbound: "sample_namespace ''extract'' = None"
  by (simp add: shipped_extract_unbound sample_namespace_shipped)

lemma latin1_short:
  "process [''extract'' \<mapsto> latin1] (read short_txt) (name short_txt) enable_global w =
     (Inr [''err'' \<mapsto> str_lit ''File too short'', ''text'' \<mapsto> [104, 105]], w)"
proof -
  have "latin1 (read short_txt) (name short_txt) w = (Inr [104, 105], w)"
    by (simp add: latin1_def short_txt_def)
  moreover have "length (strip [104, 105]) < 200"
    using length_strip_le [of "[104, 105]"] by simp
  ultimately show ?thesis
    using process_bound_short [of "[''extract'' \<mapsto> latin1]" latin1] by simp
qed

lemma latin1_long:
  assumes "read f = replicate 200 0x61"
  shows "process [''extract'' \<mapsto> latin1] (read f) (name f) enable_global w =
     (Inr [''text'' \<mapsto> replicate 200 97, ''fn'' \<mapsto> name f], w)"
proof -
  have "latin1 (read f) (name f) w = (Inr (replicate 200 97), w)"
    by (simp add: latin1_def assms)
  moreover have "\<not> length (strip (replicate 200 97)) < 200"
    by (simp add: strip_letters)
  ultimately show ?thesis
    using process_bound_long [of "[''extract'' \<mapsto> latin1]" latin1] by simp
qed

lemma names_allowed:
  "allowed_name (normalize_upload_file_type upload_types) (name short_txt)"
  "allowed_name (normalize_upload_file_type upload_types) (name upper_txt)"
  "\<not> allowed_name (normalize_upload_file_type upload_types) (name essay_exe)"
  by (simp_all add: allowed_name_def normalize_upload_file_type_def upload_types_def lower_def
        ends_with_def str_lit_def short_txt_def upper_txt_def essay_exe_def)

lemma uploader_accepts_txt: "file_uploader upload_types [short_txt] = Inr [short_txt]"
  by (rule uploader_accepts) (simp add: names_allowed)




lemma init_guest_session: "init_session guest_session = guest_session"
  by (simp add: init_session_def guest_session_def)

lemma guest_session_user: "user guest_session = Some guest_user"
  by (simp add: guest_session_def)

lemma guest_user_truthy: "truthy guest_user"
  by (simp add: guest_user_def)

lemma guest_sidebar:
  "sidebar (visit fs) \<lparr>session_state = guest_session, resources = w, checks = []\<rparr> =
     (\<lparr>session_state = guest_session, resources = w, checks = []\<rparr>, None)"
  by (simp add: sidebar_def visit_def guest_session_def guest_user_def)

lemma guest_callback:
  "callback (visit fs) \<lparr>session_state = guest_session, resources = w, checks = []\<rparr> =
     (\<lparr>session_state = guest_session, resources = w, checks = []\<rparr>, None)"
  by (simp add: callback_def visit_def)

lemma guest_visit:
  "script G (visit fs) guest_session w =
     tab1 G (visit fs) \<lparr>session_state = guest_session, resources = w, checks = []\<rparr>"
proof -
  have "startup (visit fs) = None" by (simp add: visit_def)
  moreover have "lang guest_session = Some (str_lit ''en'')" by (simp add: guest_session_def)
  ultimately show ?thesis
    by (simp add: script_def init_guest_session guest_sidebar guest_callback)
qed

lemma visit_selected: "selected (visit fs) = fs"
  by (simp add: visit_def)

lemma guest_short_upload:
  assumes "G ''extract'' = None"
  shows "script G (visit [short_txt]) guest_session w =
     (\<lparr>session_state = guest_session, resources = w,
        checks = [\<lparr>as_user = Some guest_user, on_file = short_txt, enable_global_arg = False,
                   result = Inl (NameError ''extract'')\<rparr>]\<rparr>,
      Crashed (NameError ''extract''))"
  using assms
  by (simp add: guest_visit tab1_def visit_selected uploader_accepts_txt process_unbound
        record_check_def guest_session_user)





lemma fresh_reachable: "reachable fresh_session"
  unfolding fresh_session_def by (rule reachable.fresh)

lemma guest_click:
  "script G click_guest fresh_session w =
     (\<lparr>session_state = guest_session, resources = w, checks = []\<rparr>, Rerun)"
  by (simp add: script_def init_session_def fresh_session_def click_guest_def visit_def
        sidebar_def guest_session_def)

lemma guest_reachable: "reachable guest_session"
  using reachable.run [OF fresh_reachable, of G click_guest w] by (simp add: guest_click)

section \<open>The claims\<close>

text \<open>
  C1. The specification: for an upload whose extracted text, stripped, is shorter than
  200 characters, \<^verbatim>\<open>process\<close> returns a result with the key \<^verbatim>\<open>err\<close>. The file does
  not do so: at the two-byte text file \<^verbatim>\<open>a.txt\<close> with content \<^verbatim>\<open>hi\<close> the call raises
  \<^verbatim>\<open>NameError\<close> in every namespace of the file's own names. The second half of the
  statement is the result lines 180 and 181 give once the name is bound, here to the
  sample extractor.
\<close>

theorem short_upload_raises:
  assumes "shipped G"
  shows "fst (process G (read short_txt) (name short_txt) enable_global w) =
           Inl (NameError ''extract'') \<and>
         fst (process [''extract'' \<mapsto> latin1] (read short_txt) (name short_txt) enable_global w) =
           Inr [''err'' \<mapsto> str_lit ''File too short'', ''text'' \<mapsto> [104, 105]]"
  using assms by (simp add: shipped_extract_unbound process_unbound latin1_short)

text \<open>The evaluation in the sample namespace.\<close>

theorem short_upload_raises_witness:
  "shipped sample_namespace \<and>
   fst (process sample_namespace (read short_txt) (name short_txt) False no_models) =
     Inl (NameError ''extract'')"
  using short_upload_raises [OF sample_namespace_shipped, of False no_models]
    sample_namespace_shipped
  by simp

text \<open>
  C2. For every input (any file bytes, any file name, either value of the flag),
  calling \<^verbatim>\<open>process\<close> in a namespace that binds only names of the file and of the
  builtins raises \<^verbatim>\<open>NameError\<close> for \<^verbatim>\<open>extract\<close>, before the length check is reached
  and without any other effect: \<^verbatim>\<open>process\<close> never returns normally.
\<close>

theorem process_raises_NameError:
  assumes "shipped G"
  shows "process G file_bytes fn enable_global w = (Inl (NameError ''extract''), w)"
  using assms by (simp add: shipped_extract_unbound process_unbound)

text \<open>The claim at a two-byte text file, in a namespace binding \<^verbatim>\<open>len\<close> and \<^verbatim>\<open>process\<close>.\<close>

theorem process_raises_NameError_witness:
  "shipped sample_namespace \<and>
   process sample_namespace (read short_txt) (name short_txt) False no_models =
     (Inl (NameError ''extract''), no_models)"
  using process_raises_NameError [OF sample_namespace_shipped] sample_namespace_shipped
  by simp

text \<open>
  C3. No call of \<^verbatim>\<open>process\<close> uses any of the five lazily constructed models. In a
  namespace of the file's own names the call leaves the model cache and the record
  of loader calls untouched, and so does a whole run of the script; where
  \<^verbatim>\<open>extract\<close> is bound, the state after \<^verbatim>\<open>process\<close> is the state \<^verbatim>\<open>extract\<close> left,
  so \<^verbatim>\<open>process\<close> adds nothing of its own to the extraction and the length check.
  Every loader, were it called, would show in the record.
\<close>

theorem process_calls_no_model:
  "(shipped G \<longrightarrow>
      snd (process G file_bytes fn enable_global w) = w \<and>
      resources (fst (script G i s w)) = w)
   \<and> (\<forall>extract. G ''extract'' = Some extract \<longrightarrow>
        snd (process G file_bytes fn enable_global w) = snd (extract file_bytes fn w))
   \<and> loader_calls (snd (load_embedder w)) \<noteq> loader_calls w
   \<and> loader_calls (snd (load_cross_encoder w)) \<noteq> loader_calls w
   \<and> loader_calls (snd (load_nlp w)) \<noteq> loader_calls w
   \<and> loader_calls (snd (load_tokenizer w)) \<noteq> loader_calls w
   \<and> loader_calls (snd (load_gpt_model w)) \<noteq> loader_calls w"
proof -
  have "snd (process G file_bytes fn enable_global w) = w" if "shipped G"
    using that by (simp add: shipped_extract_unbound process_unbound)
  moreover have "resources (fst (script G i s w)) = w" if "shipped G"
    using that by (simp add: shipped_extract_unbound script_resources_unbound)
  moreover have "snd (process G file_bytes fn enable_global w) = snd (ex file_bytes fn w)"
    if "G ''extract'' = Some ex" for ex
    using that by (rule process_state_bound)
  ultimately show ?thesis by (simp add: loaders_extend_calls)
qed

text \<open>
  The claim at a two-byte text file: in the sample namespace, in the run of a guest who
  uploads it, and with the sample extractor bound.
\<close>

theorem process_calls_no_model_witness:
  "shipped sample_namespace \<and>
   snd (process sample_namespace (read short_txt) (name short_txt) False no_models) = no_models \<and>
   resources (fst (script sample_namespace (visit [short_txt]) guest_session no_models)) = no_models \<and>
   snd (process [''extract'' \<mapsto> latin1] (read short_txt) (name short_txt) False no_models) =
     no_models"
  using process_calls_no_model
      [of sample_namespace "read short_txt" "name short_txt" False no_models "visit [short_txt]"
        guest_session]
    process_calls_no_model
      [of "[''extract'' \<mapsto> latin1]" "read short_txt" "name short_txt" False no_models]
    sample_namespace_shipped
  by (simp add: latin1_def)

text \<open>
  C4. The flag \<^verbatim>\<open>enable_global\<close> is never read: with the flag set and with it
  cleared, \<^verbatim>\<open>process\<close> gives the same result and leaves the same state, in every
  namespace; and the one call site passes \<^verbatim>\<open>False\<close> in every run.
\<close>

theorem process_ignores_enable_global:
  "process G file_bytes fn True w = process G file_bytes fn False w \<and>
   (\<forall>c \<in> set (checks (fst (script G i s w))). enable_global_arg c = False)"
proof
  show "process G file_bytes fn True w = process G file_bytes fn False w"
    by (simp add: process_def)
  show "\<forall>c \<in> set (checks (fst (script G i s w))). enable_global_arg c = False"
    by (rule script_checks) simp
qed

text \<open>The claim at the run of a guest who uploads one short text file.\<close>

theorem process_ignores_enable_global_witness:
  "process sample_namespace (read short_txt) (name short_txt) True no_models =
     process sample_namespace (read short_txt) (name short_txt) False no_models \<and>
   checks (fst (script sample_namespace (visit [short_txt]) guest_session no_models)) \<noteq> [] \<and>
   list_all (\<lambda>c. enable_global_arg c = False)
     (checks (fst (script sample_namespace (visit [short_txt]) guest_session no_models)))"
  using process_ignores_enable_global
    [of sample_namespace "read short_txt" "name short_txt" no_models "visit [short_txt]"
      guest_session]
  by (simp add: guest_short_upload sample_namespace_unbound)

text \<open>
  C5. The specification: for an upload whose extracted text, stripped, has at least 200
  characters, \<^verbatim>\<open>process\<close> returns the text and the file name and nothing else. The
  file does not do so: at \<^verbatim>\<open>b.txt\<close>, 200 letters \<^verbatim>\<open>a\<close>, the call raises
  \<^verbatim>\<open>NameError\<close> in every namespace of the file's own names. The second half of the
  statement is the result line 182 gives once the name is bound.
\<close>

theorem long_upload_raises:
  assumes "shipped G"
  shows "fst (process G (read long_txt) (name long_txt) enable_global w) =
           Inl (NameError ''extract'') \<and>
         fst (process [''extract'' \<mapsto> latin1] (read long_txt) (name long_txt) enable_global w) =
           Inr [''text'' \<mapsto> replicate 200 97, ''fn'' \<mapsto> name long_txt]"
proof -
  have "process [''extract'' \<mapsto> latin1] (read long_txt) (name long_txt) enable_global w =
      (Inr [''text'' \<mapsto> replicate 200 97, ''fn'' \<mapsto> name long_txt], w)"
    by (rule latin1_long) (simp add: long_txt_def)
  with assms show ?thesis by (simp add: shipped_extract_unbound process_unbound)
qed

text \<open>The evaluation in the sample namespace.\<close>

theorem long_upload_raises_witness:
  "shipped sample_namespace \<and>
   fst (process sample_namespace (read long_txt) (name long_txt) False no_models) =
     Inl (NameError ''extract'')"
  using long_upload_raises [OF sample_namespace_shipped, of False no_models]
    sample_namespace_shipped
  by simp




text \<open>
  C7 and C8 speak of a segmenter and of a similarity report over a corpus. The file has
  neither: the tokenizers and the sentence embedder are imported, the loaders above are
  defined, and nothing calls them (C3). Nothing is stated about them here.
\<close>

text \<open>
  C9. The specification: the caller of \<^verbatim>\<open>process\<close> receives, for a text that is too
  short, the dictionary with the message under \<^verbatim>\<open>err\<close> and the whole text under
  \<^verbatim>\<open>text\<close>. The file does not hand the caller any dictionary: the run of a guest who
  uploads \<^verbatim>\<open>a.txt\<close> ends at the call with the uncaught \<^verbatim>\<open>NameError\<close>, and that is
  all the loop has recorded.
\<close>

theorem short_upload_crashes_run:
  assumes "shipped G"
  shows "script G (visit [short_txt]) guest_session w =
     (\<lparr>session_state = guest_session, resources = w,
        checks = [\<lparr>as_user = Some guest_user, on_file = short_txt, enable_global_arg = False,
                   result = Inl (NameError ''extract'')\<rparr>]\<rparr>,
      Crashed (NameError ''extract''))"
  using assms by (simp add: shipped_extract_unbound guest_short_upload)

text \<open>The evaluation in the sample namespace.\<close>

theorem short_upload_crashes_run_witness:
  "shipped sample_namespace \<and>
   snd (script sample_namespace (visit [short_txt]) guest_session no_models) =
     Crashed (NameError ''extract'') \<and>
   map result (checks (fst (script sample_namespace (visit [short_txt]) guest_session no_models))) =
     [Inl (NameError ''extract'')]"
  using short_upload_crashes_run [OF sample_namespace_shipped, of no_models]
    sample_namespace_shipped
  by simp

text \<open>
  C10. \<^verbatim>\<open>process\<close> is reached only with a user in the session. At every call a run
  makes the session holds a truthy user, so not \<^verbatim>\<open>None\<close>: the user the run began
  with, itself truthy, or the user object the login callback has just stored. A run
  that begins without a user makes no call and does not reach the end of the file:
  when nothing fails before the sidebar it stops there, or reruns after the guest
  button. In a session the script itself built, the user of a call is the guest
  dictionary or a user object of the Supabase client.
\<close>

theorem process_only_with_user:
  "(\<forall>c \<in> set (checks (fst (script G i s w))).
      as_user c \<noteq> None \<and> as_user c \<noteq> Some PyNone \<and>
      (\<exists>u v. as_user c = Some u \<and> truthy u \<and> user s = Some v \<and> truthy v \<and>
             (u = v \<or> (\<exists>x. u = SupabaseUser x))))
   \<and> (user s = None \<or> user s = Some PyNone \<longrightarrow>
        checks (fst (script G i s w)) = [] \<and> snd (script G i s w) \<noteq> Finished)
   \<and> ((user s = None \<or> user s = Some PyNone) \<and> startup i = None \<and>
        (lang s = None \<or> lang s = Some (str_lit ''en'')) \<longrightarrow>
        snd (script G i s w) = (if guest_button i then Rerun else Stopped))
   \<and> (reachable s \<longrightarrow>
        (\<forall>c \<in> set (checks (fst (script G i s w))).
           as_user c = Some guest_user \<or> (\<exists>x. as_user c = Some (SupabaseUser x))))"
proof (intro conjI ballI impI)
  fix c assume c: "c \<in> set (checks (fst (script G i s w)))"
  from script_checks_user [OF c]
  show "\<exists>u v. as_user c = Some u \<and> truthy u \<and> user s = Some v \<and> truthy v \<and>
           (u = v \<or> (\<exists>x. u = SupabaseUser x))" .
  then show "as_user c \<noteq> None" and "as_user c \<noteq> Some PyNone" by auto
next
  assume "user s = None \<or> user s = Some PyNone"
  then show "checks (fst (script G i s w)) = []" and "snd (script G i s w) \<noteq> Finished"
    using script_no_user_no_checks [of s G i w] by simp_all
next
  assume "(user s = None \<or> user s = Some PyNone) \<and> startup i = None \<and>
        (lang s = None \<or> lang s = Some (str_lit ''en''))"
  then show "snd (script G i s w) = (if guest_button i then Rerun else Stopped)"
    using script_without_user [of s i G w] by blast
next
  fix c assume r: "reachable s" and c: "c \<in> set (checks (fst (script G i s w)))"
  from script_checks_user [OF c] obtain u v where
    u: "as_user c = Some u" "truthy u" and v: "user s = Some v" "truthy v"
    and uv: "u = v \<or> (\<exists>x. u = SupabaseUser x)" by blast
  from reachable_user [OF r] v have "v = guest_user \<or> (\<exists>x. v = SupabaseUser x)" by auto
  with u uv show "as_user c = Some guest_user \<or> (\<exists>x. as_user c = Some (SupabaseUser x))"
    by auto
qed

text \<open>
  The claim at a guest who uploads one text file (the session a fresh visitor gets from
  the guest button), and at the same upload in a fresh session.
\<close>

theorem process_only_with_user_witness:
  "reachable guest_session \<and>
   checks (fst (script sample_namespace (visit [short_txt]) guest_session no_models)) =
     [\<lparr>as_user = Some guest_user, on_file = short_txt, enable_global_arg = False,
        result = Inl (NameError ''extract'')\<rparr>] \<and>
   truthy guest_user \<and> user guest_session = Some guest_user \<and>
   user fresh_session = None \<and>
   checks (fst (script sample_namespace (visit [short_txt]) fresh_session no_models)) = [] \<and>
   snd (script sample_namespace (visit [short_txt]) fresh_session no_models) = Stopped"
proof -
  have run: "checks (fst (script sample_namespace (visit [short_txt]) guest_session no_models)) =
     [\<lparr>as_user = Some guest_user, on_file = short_txt, enable_global_arg = False,
        result = Inl (NameError ''extract'')\<rparr>]"
    by (simp add: guest_short_upload sample_namespace_unbound)
  have f: "user fresh_session = None" "lang fresh_session = None"
    by (simp_all add: fresh_session_def)
  have v: "startup (visit [short_txt]) = None" "\<not> guest_button (visit [short_txt])"
    by (simp_all add: visit_def)
  show ?thesis
    using process_only_with_user
        [of sample_namespace "visit [short_txt]" guest_session no_models]
      process_only_with_user
        [of sample_namespace "visit [short_txt]" fresh_session no_models]
      guest_reachable run f v guest_user_truthy guest_session_user
    by simp
qed

end
